theory Spec2Isabelle
  imports Complex_Main "HOL-Library.AList"
begin

section \<open>Errors\<close>

text \<open>
  Modelled from the spec: the error taxonomy of section 7 (\<^verbatim>\<open>error.ts\<close> is not part of
  the sources at hand). The source throws \<^verbatim>\<open>ERROR_CODE.INVALID_PARAMS\<close>, which is
  \<open>InvalidParams\<close> here; \<open>InvalidValue\<close> and \<open>TruncatedInput\<close> are the two other
  kinds the spec names. \<open>IncorrectLength\<close> (a hex string with an odd number of digits is
  not a byte sequence) and \<open>InvalidHex\<close> (a character that is not a hex digit where a
  number is read) mark inputs outside the wire format of section 6. \<open>LibraryError\<close> is
  the \<^verbatim>\<open>Error\<close> that the library bignumber.js throws by itself.
\<close>

datatype error =
  TruncatedInput | InvalidValue | InvalidParams | IncorrectLength | InvalidHex | LibraryError

section \<open>Hexadecimal digits\<close>

text \<open>The digits \<^verbatim>\<open>0123456789abcdef\<close>, by character code.\<close>

definition hexChar :: "nat \<Rightarrow> char" where
  "hexChar d = char_of (if d < 10 then 48 + d else 87 + d)"

definition hexValue :: "char \<Rightarrow> nat option" where
  "hexValue c = (let k = (of_char c :: nat) in
     if 48 \<le> k \<and> k \<le> 57 then Some (k - 48)
     else if 97 \<le> k \<and> k \<le> 102 then Some (k - 87)
     else None)"

text \<open>
  Reading a digit string most significant digit first; \<open>None\<close> when a character is
  not a digit. The empty string reads as the accumulator.
\<close>

fun parseDigits :: "nat \<Rightarrow> string \<Rightarrow> nat option" where
  "parseDigits acc [] = Some acc"
| "parseDigits acc (c # cs) =
     (case hexValue c of None \<Rightarrow> None | Some d \<Rightarrow> parseDigits (16 * acc + d) cs)"

text \<open>The bytes (digit pairs) of a hex string, in order.\<close>

fun hexBytes :: "string \<Rightarrow> string list" where
  "hexBytes (a # b # cs) = [a, b] # hexBytes cs"
| "hexBytes cs = []"

text \<open>
  Modelled from the spec: \<^verbatim>\<open>reverseHex\<close> of \<^verbatim>\<open>utils\<close>, which is not part of the
  sources at hand. Section 4.3 calls it byte reversal: the digit pairs of the string in
  the opposite order. A string with an odd number of digits is not a byte sequence and is
  refused.
\<close>

definition reverseHex :: "string \<Rightarrow> error + string" where
  "reverseHex hex =
     (if length hex mod 2 \<noteq> 0 then Inl IncorrectLength
      else Inr (concat (rev (hexBytes hex))))"

section \<open>The big-integer codec (\<^verbatim>\<open>common/bigInt.ts\<close>)\<close>

text \<open>
  \<^verbatim>\<open>BigNumber\<close> is the external library bignumber.js. A \<^verbatim>\<open>BigNumber\<close> is
  not-a-number, plus or minus infinity (\<open>True\<close> for minus), or a finite decimal; the
  model keeps the number such a value denotes. The library keeps a sign on zero too:
  \<open>BN_NegZero\<close> is its \<^verbatim>\<open>-0\<close>, an integer that \<^verbatim>\<open>isNegative\<close> calls negative,
  and \<open>BN_Finite 0\<close> is its \<^verbatim>\<open>0\<close>.
\<close>

datatype BigNumber = BN_NaN | BN_Infinity bool | BN_NegZero | BN_Finite rat

fun isInteger :: "BigNumber \<Rightarrow> bool" where
  "isInteger (BN_Finite r) = (of_int \<lfloor>r\<rfloor> = r)"
| "isInteger BN_NegZero = True"
| "isInteger bi = False"

fun isNegative :: "BigNumber \<Rightarrow> bool" where
  "isNegative (BN_Finite r) = (r < 0)"
| "isNegative BN_NegZero = True"
| "isNegative (BN_Infinity neg) = neg"
| "isNegative BN_NaN = False"

fun integerValue :: "BigNumber \<Rightarrow> nat" where
  "integerValue (BN_Finite r) = nat \<lfloor>r\<rfloor>"
| "integerValue bi = 0"

text \<open>
  \<^verbatim>\<open>bi.toString(16)\<close> of a non-negative integer: its digits in base 16, most
  significant first, without leading zeros, and the single digit \<^verbatim>\<open>0\<close> for zero.
\<close>

fun toString16 :: "nat \<Rightarrow> string" where
  "toString16 n =
     (if n < 16 then [hexChar n] else toString16 (n div 16) @ [hexChar (n mod 16)])"

declare toString16.simps [simp del]

text \<open>
  \<^verbatim>\<open>new BigNumber(hex, 16)\<close>. A string of the digits \<^verbatim>\<open>0-9a-f\<close> is read as a
  base-16 integer; the library's digit loop accepts the empty string, which it reads as
  zero. What the library makes of any other string (a sign, a fraction point, capital
  digits, or its \<^verbatim>\<open>Error\<close> for a string that is no base-16 number) is the parameter
  \<open>other\<close>.
\<close>

definition BigNumber_base16 ::
  "(string \<Rightarrow> error + BigNumber) \<Rightarrow> string \<Rightarrow> error + BigNumber" where
  "BigNumber_base16 other s =
     (case parseDigits 0 s of
        Some n \<Rightarrow> Inr (BN_Finite (of_nat n))
      | None \<Rightarrow> other s)"

text \<open>
  The argument of the constructor, \<^verbatim>\<open>value: string | number\<close>. A number primitive is
  not-a-number, an infinity (\<open>True\<close> for minus) or finite; a finite one is given by the
  decimal that its string form \<^verbatim>\<open>n + ''\<close> denotes, which is what the library reads:
  \<open>JS_Finite neg c e\<close> is \<open>c * 10 ^ e\<close> with a minus sign when \<open>neg\<close> (so
  \<open>JS_Finite True 0 0\<close> is \<^verbatim>\<open>-0\<close>, \<open>JS_Finite False 15 (- 1)\<close> is \<^verbatim>\<open>1.5\<close> and
  \<open>JS_Finite False 18446744073709552 3\<close> is \<^verbatim>\<open>2 ** 64\<close>, which prints as
  \<^verbatim>\<open>18446744073709552000\<close>).
\<close>

datatype number = JS_NaN | JS_Infinity bool | JS_Finite bool nat int

datatype js_value = JNumber number | JString string

definition magnitude :: "nat \<Rightarrow> int \<Rightarrow> rat" where
  "magnitude c e = (if 0 \<le> e then of_nat c * 10 ^ nat e else of_nat c / 10 ^ nat (- e))"

text \<open>
  The significant digits of a coefficient: its decimal digits without the zeros at its
  end (none for zero).
\<close>

fun stripZeros :: "nat \<Rightarrow> nat" where
  "stripZeros c = (if c = 0 \<or> c mod 10 \<noteq> 0 then c else stripZeros (c div 10))"

declare stripZeros.simps [simp del]

fun numDigits :: "nat \<Rightarrow> nat" where
  "numDigits c = (if c < 10 then 1 else Suc (numDigits (c div 10)))"

declare numDigits.simps [simp del]

definition sigDigits :: "nat \<Rightarrow> nat" where
  "sigDigits c = (if c = 0 then 0 else numDigits (stripZeros c))"

definition MAX_SAFE_INTEGER :: rat where
  "MAX_SAFE_INTEGER = 9007199254740991"

text \<open>Decimal numerals: the digits \<^verbatim>\<open>0-9\<close>, a string of them read most significant first.\<close>

definition isDecimalDigit :: "char \<Rightarrow> bool" where
  "isDecimalDigit c = (48 \<le> (of_char c :: nat) \<and> (of_char c :: nat) \<le> 57)"

fun parseDecimal :: "nat \<Rightarrow> string \<Rightarrow> nat" where
  "parseDecimal acc [] = acc"
| "parseDecimal acc (c # cs) = parseDecimal (10 * acc + (of_char c - 48)) cs"

fun decimal :: "nat \<Rightarrow> string" where
  "decimal n =
     (if n < 10 then [char_of (48 + n)] else decimal (n div 10) @ [char_of (48 + n mod 10)])"

declare decimal.simps [simp del]

text \<open>
  \<^verbatim>\<open>new BigNumber(value)\<close>, line 599 of the source, as the library of the repository's
  lock file does it. A number primitive that is not-a-number or infinite gives that
  \<^verbatim>\<open>BigNumber\<close>. A finite number primitive with more than 15 significant digits that is
  above \<^verbatim>\<open>MAX_SAFE_INTEGER\<close> or not an integer makes the library throw; any other
  finite number gives its decimal, \<^verbatim>\<open>-0\<close> keeping its sign. A non-empty string of
  decimal digits gives the integer it spells. What the library makes of any other string
  (a sign, a fraction, an exponent, blanks, a base prefix, \<^verbatim>\<open>Infinity\<close>, \<^verbatim>\<open>NaN\<close>, or
  its \<^verbatim>\<open>Error\<close> for a string that is no number, such as \<^verbatim>\<open>abc\<close>) is the parameter
  \<open>lib\<close>.
\<close>

fun BigNumber_new :: "(string \<Rightarrow> error + BigNumber) \<Rightarrow> js_value \<Rightarrow> error + BigNumber" where
  "BigNumber_new lib (JNumber JS_NaN) = Inr BN_NaN"
| "BigNumber_new lib (JNumber (JS_Infinity neg)) = Inr (BN_Infinity neg)"
| "BigNumber_new lib (JNumber (JS_Finite neg c e)) =
     (let n = magnitude c e in
      if 15 < sigDigits c \<and> (MAX_SAFE_INTEGER < n \<or> of_int \<lfloor>n\<rfloor> \<noteq> n) then Inl LibraryError
      else if c = 0 then Inr (if neg then BN_NegZero else BN_Finite 0)
      else Inr (BN_Finite (if neg then - n else n)))"
| "BigNumber_new lib (JString s) =
     (if s \<noteq> [] \<and> list_all isDecimalDigit s then Inr (BN_Finite (of_nat (parseDecimal 0 s)))
      else lib s)"

text \<open>
  A \<^verbatim>\<open>BigInt\<close> holds the \<^verbatim>\<open>value\<close> its constructor was given. The constructor
  lets only non-negative integers through, and every use of the field reads it back with
  \<^verbatim>\<open>new BigNumber(this.value)\<close>, so the record keeps that integer.

  The constructor is \<open>BigInt_new\<close>: line 599 builds the \<^verbatim>\<open>BigNumber\<close> and may throw
  the library's error, and lines 600 to 603, \<open>BigInt_of\<close>, check it and keep it.
  \<^verbatim>\<open>fromHexstr\<close> calls the constructor on \<^verbatim>\<open>bn.toString()\<close>, the decimal string
  the library printed for the \<^verbatim>\<open>BigNumber\<close> of its line 592; the library reads its own
  print back as the same \<^verbatim>\<open>BigNumber\<close>, so there line 599 gives \<open>bn\<close> again.
\<close>

record BigInt =
  "value" :: nat

definition BigInt_of :: "BigNumber \<Rightarrow> error + BigInt" where
  "BigInt_of bi =
     (if \<not> isInteger bi \<or> isNegative bi then Inl InvalidParams
      else Inr \<lparr>value = integerValue bi\<rparr>)"

definition BigInt_new :: "(string \<Rightarrow> error + BigNumber) \<Rightarrow> js_value \<Rightarrow> error + BigInt" where
  "BigInt_new lib value' =
     (case BigNumber_new lib value' of
        Inl e \<Rightarrow> Inl e
      | Inr bi \<Rightarrow> BigInt_of bi)"

definition fromHexstr :: "(string \<Rightarrow> error + BigNumber) \<Rightarrow> string \<Rightarrow> error + BigInt" where
  "fromHexstr other hex =
     (case reverseHex hex of
        Inl e \<Rightarrow> Inl e
      | Inr hex' \<Rightarrow>
          (case BigNumber_base16 other hex' of
             Inl e \<Rightarrow> Inl e
           | Inr bn \<Rightarrow> BigInt_of bn))"

definition toHexstr :: "BigInt \<Rightarrow> error + string" where
  "toHexstr this =
     (let hex = toString16 (value this);
          hex = (if length hex mod 2 \<noteq> 0 then CHR ''0'' # hex else hex)
      in reverseHex hex)"

text \<open>
  The encoding rule of section 4.3 in the spec's words, for comparison with
  \<open>toHexstr\<close> and \<open>fromHexstr\<close>: padding a digit string with a zero to an even number
  of digits, reversing its bytes, and the base-16 integer a digit string denotes (digit
  \<open>i\<close> from the left weighs \<open>16 ^ (length ds - 1 - i)\<close>).
\<close>

definition zeroPadEven :: "string \<Rightarrow> string" where
  "zeroPadEven m = (if even (length m) then m else CHR ''0'' # m)"

definition byteReverse :: "string \<Rightarrow> string" where
  "byteReverse h = concat (rev (hexBytes h))"

definition base16Value :: "string \<Rightarrow> nat" where
  "base16Value ds = (\<Sum>i<length ds. the (hexValue (ds ! i)) * 16 ^ (length ds - 1 - i))"

section \<open>Wire format helpers (\<^verbatim>\<open>utils\<close>)\<close>

text \<open>
  Modelled from the spec: \<^verbatim>\<open>num2hexstring\<close>, \<^verbatim>\<open>str2hexstr\<close>, \<^verbatim>\<open>hexstr2str\<close>,
  \<^verbatim>\<open>num2VarInt\<close>, \<^verbatim>\<open>str2VarBytes\<close> and \<^verbatim>\<open>hex2VarBytes\<close> of \<^verbatim>\<open>utils\<close>, which are
  not part of the sources at hand. Sections 4.1, 4.2 and 6: an integer is written in a
  fixed number of bytes, two hex digits a byte, least significant byte first when
  little-endian is asked for; a string is written as the hex digits of its bytes; a
  length prefix is one byte below \<^verbatim>\<open>0xFD\<close>, the marker \<^verbatim>\<open>0xFD\<close> and two bytes when
  it fits 16 bits, \<^verbatim>\<open>0xFE\<close> and four bytes when it fits 32 bits, \<^verbatim>\<open>0xFF\<close> and eight
  bytes otherwise. A value that does not fit its width is outside the codec's range;
  only its low-order bytes are written.
\<close>

definition byte2hex :: "nat \<Rightarrow> string" where
  "byte2hex b = [hexChar (b div 16 mod 16), hexChar (b mod 16)]"

fun bytesLE :: "nat \<Rightarrow> nat \<Rightarrow> nat list" where
  "bytesLE 0 num = []"
| "bytesLE (Suc k) num = (num mod 256) # bytesLE k (num div 256)"

definition num2hexstring :: "nat \<Rightarrow> nat \<Rightarrow> bool \<Rightarrow> string" where
  "num2hexstring num size' littleEndian =
     concat (map byte2hex (if littleEndian then bytesLE size' num else rev (bytesLE size' num)))"

definition str2hexstr :: "string \<Rightarrow> string" where
  "str2hexstr s = concat (map (\<lambda>c. byte2hex (of_char c)) s)"

definition num2VarInt :: "nat \<Rightarrow> string" where
  "num2VarInt num =
     (if num < 0xFD then num2hexstring num 1 False
      else if num \<le> 0xFFFF then ''fd'' @ num2hexstring num 2 True
      else if num \<le> 0xFFFFFFFF then ''fe'' @ num2hexstring num 4 True
      else ''ff'' @ num2hexstring num 8 True)"

definition hex2VarBytes :: "string \<Rightarrow> string" where
  "hex2VarBytes hex = num2VarInt (length hex div 2) @ hex"

definition str2VarBytes :: "string \<Rightarrow> string" where
  "str2VarBytes s = (let hex = str2hexstr s in num2VarInt (length hex div 2) @ hex)"

text \<open>
  Modelled from the spec: the reading side of the same helpers (\<^verbatim>\<open>hexstr2str\<close> and
  the integer reads of the stream reader), which are not part of the sources at hand. A
  hex digit counts in either case; a byte is two digits, the high one first (\<open>None\<close>
  when a character is not a hex digit); a little-endian byte sequence denotes the integer
  whose least significant byte comes first; a hex string spells the string of its bytes.
\<close>

definition hexDigit :: "char \<Rightarrow> nat option" where
  "hexDigit c = (let k = (of_char c :: nat) in
     if 48 \<le> k \<and> k \<le> 57 then Some (k - 48)
     else if 97 \<le> k \<and> k \<le> 102 then Some (k - 87)
     else if 65 \<le> k \<and> k \<le> 70 then Some (k - 55)
     else None)"

fun hex2bytes :: "string \<Rightarrow> nat list option" where
  "hex2bytes (a # b # cs) =
     (case (hexDigit a, hexDigit b, hex2bytes cs) of
        (Some h, Some l, Some bs) \<Rightarrow> Some ((16 * h + l) # bs)
      | _ \<Rightarrow> None)"
| "hex2bytes cs = (if cs = [] then Some [] else None)"

fun valueLE :: "nat list \<Rightarrow> nat" where
  "valueLE [] = 0"
| "valueLE (b # bs) = b + 256 * valueLE bs"

definition hexstr2str :: "string \<Rightarrow> error + string" where
  "hexstr2str hex =
     (case hex2bytes hex of None \<Rightarrow> Inl InvalidHex | Some bs \<Rightarrow> Inr (map char_of bs))"

text \<open>
  \<^verbatim>\<open>parseInt(s, 16)\<close> on a non-empty string of hex digits, most significant digit
  first. Any other string is outside the wire format (JavaScript reads a sign, blanks, a
  \<^verbatim>\<open>0x\<close> prefix or the digits before the first other character, and gives
  \<^verbatim>\<open>NaN\<close> when there is no digit).
\<close>

fun parseHex :: "nat \<Rightarrow> string \<Rightarrow> nat option" where
  "parseHex acc [] = Some acc"
| "parseHex acc (c # cs) =
     (case hexDigit c of None \<Rightarrow> None | Some d \<Rightarrow> parseHex (16 * acc + d) cs)"

definition parseInt16 :: "string \<Rightarrow> error + nat" where
  "parseInt16 s =
     (if s = [] then Inl InvalidHex
      else case parseHex 0 s of None \<Rightarrow> Inl InvalidHex | Some n \<Rightarrow> Inr n)"

section \<open>The stream reader (\<^verbatim>\<open>StringReader\<close> of \<^verbatim>\<open>utils\<close>)\<close>

text \<open>
  Modelled from the spec: \<^verbatim>\<open>StringReader\<close>, which is not part of the sources at hand.
  Sections 3 and 4.1: a hex-digit sequence and a read cursor counted in bytes; a read of
  \<open>n\<close> bytes takes \<open>2 * n\<close> digits and moves the cursor by \<open>n\<close>, and fails with
  \<open>TruncatedInput\<close> when fewer bytes remain. \<^verbatim>\<open>readInt\<close> and \<^verbatim>\<open>readUint32\<close> read a
  little-endian \<^verbatim>\<open>uint32\<close>, \<^verbatim>\<open>readLong\<close> a little-endian \<^verbatim>\<open>uint64\<close>,
  \<^verbatim>\<open>readNextLen\<close> a length prefix and \<^verbatim>\<open>readNextBytes\<close> a length-prefixed byte
  string. The reader is mutable in the source; here every read returns the reader it
  leaves behind.
\<close>

record StringReader =
  str :: string
  pos :: nat

definition StringReader_new :: "string \<Rightarrow> StringReader" where
  "StringReader_new s = \<lparr>str = s, pos = 0\<rparr>"

definition read :: "nat \<Rightarrow> StringReader \<Rightarrow> error + (string \<times> StringReader)" where
  "read bytes sr =
     (if length (str sr) div 2 < pos sr + bytes then Inl TruncatedInput
      else Inr (take (2 * bytes) (drop (2 * pos sr) (str sr)), sr\<lparr>pos := pos sr + bytes\<rparr>))"

definition readUint :: "nat \<Rightarrow> StringReader \<Rightarrow> error + (nat \<times> StringReader)" where
  "readUint width sr =
     (case read width sr of
        Inl e \<Rightarrow> Inl e
      | Inr (hex, sr') \<Rightarrow>
          (case hex2bytes hex of None \<Rightarrow> Inl InvalidHex | Some bs \<Rightarrow> Inr (valueLE bs, sr')))"

definition readInt :: "StringReader \<Rightarrow> error + (nat \<times> StringReader)" where
  "readInt sr = readUint 4 sr"

definition readUint32 :: "StringReader \<Rightarrow> error + (nat \<times> StringReader)" where
  "readUint32 sr = readUint 4 sr"

definition readLong :: "StringReader \<Rightarrow> error + (nat \<times> StringReader)" where
  "readLong sr = readUint 8 sr"

definition readNextLen :: "StringReader \<Rightarrow> error + (nat \<times> StringReader)" where
  "readNextLen sr =
     (case readUint 1 sr of
        Inl e \<Rightarrow> Inl e
      | Inr (len, sr') \<Rightarrow>
          if len = 0xFD then readUint 2 sr'
          else if len = 0xFE then readUint 4 sr'
          else if len = 0xFF then readUint 8 sr'
          else Inr (len, sr'))"

definition readNextBytes :: "StringReader \<Rightarrow> error + (string \<times> StringReader)" where
  "readNextBytes sr =
     (case readNextLen sr of
        Inl e \<Rightarrow> Inl e
      | Inr (bytesToRead, sr') \<Rightarrow> read bytesToRead sr')"

text \<open>Running one fallible step after another: the first error ends the run.\<close>

definition andThen :: "error + 'a \<Rightarrow> ('a \<Rightarrow> error + 'b) \<Rightarrow> error + 'b" where
  "andThen m f = (case m of Inl e \<Rightarrow> Inl e | Inr x \<Rightarrow> f x)"

section \<open>Addresses\<close>

text \<open>
  Modelled from the spec: \<^verbatim>\<open>Address\<close> of \<^verbatim>\<open>crypto\<close>, which is not part of the sources
  at hand. Sections 3 and 4.1: an address is its 20 raw bytes, kept as hex; it is written
  as that fixed-length run with no length prefix and read as a run of 20 bytes.
\<close>

datatype Address = Address string

fun Address_serialize :: "Address \<Rightarrow> string" where
  "Address_serialize (Address v) = v"

definition Address_deserialize :: "StringReader \<Rightarrow> error + (Address \<times> StringReader)" where
  "Address_deserialize sr = andThen (read 20 sr) (\<lambda>(v, sr). Inr (Address v, sr))"

definition GOVERNANCE_CONTRACT :: string where
  "GOVERNANCE_CONTRACT = ''0000000000000000000000000000000000000007''"

definition PEER_ATTRIBUTES :: string where
  "PEER_ATTRIBUTES = ''peerAttributes''"

definition SPLIT_FEE_ADDRESS :: string where
  "SPLIT_FEE_ADDRESS = ''splitFeeAddress''"

definition AUTHORIZE_INFO_POOL :: string where
  "AUTHORIZE_INFO_POOL = ''authorizeInfoPool''"

definition contractAddress :: Address where
  "contractAddress = Address GOVERNANCE_CONTRACT"

section \<open>Transaction builders\<close>

text \<open>
  Modelled from the spec: \<^verbatim>\<open>Struct\<close> of \<^verbatim>\<open>abi/struct.ts\<close>, which is not part of the
  sources at hand. Section 4.4: an ordered list of values, strings or numbers, to which
  \<^verbatim>\<open>add\<close> appends its arguments in call order.
\<close>

datatype param = StrParam string | NumParam int

type_synonym Struct = "param list"

definition Struct_new :: Struct where
  "Struct_new = []"

definition Struct_add :: "Struct \<Rightarrow> param list \<Rightarrow> Struct" where
  "Struct_add struct args = struct @ args"

text \<open>
  Modelled from the spec: \<^verbatim>\<open>buildNativeCodeScript\<close> and \<^verbatim>\<open>makeNativeContractTx\<close>,
  which are not part of the sources at hand. Sections 1 and 6 leave the script and the
  transaction envelope to collaborators; the model keeps what the builder hands to them:
  the operation name, the structs of the parameter script, the contract, the gas fields
  and the payer.
\<close>

record Transaction =
  tx_funcName :: string
  tx_params :: "Struct list"
  tx_contract :: Address
  tx_gasPrice :: string
  tx_gasLimit :: string
  tx_payer :: Address

definition buildNativeCodeScript :: "Struct list \<Rightarrow> Struct list" where
  "buildNativeCodeScript structs = structs"

definition makeNativeContractTx ::
  "string \<Rightarrow> Struct list \<Rightarrow> Address \<Rightarrow> string \<Rightarrow> string \<Rightarrow> Address \<Rightarrow> Transaction" where
  "makeNativeContractTx funcName params contractAddr gasPrice gasLimit payer =
     \<lparr>tx_funcName = funcName, tx_params = params, tx_contract = contractAddr,
      tx_gasPrice = gasPrice, tx_gasLimit = gasLimit, tx_payer = payer\<rparr>"

text \<open>
  \<^verbatim>\<open>varifyPositiveInt\<close> of \<^verbatim>\<open>utils\<close> is not part of the sources at hand and the spec
  does not describe it: it is a parameter of \<open>makeRegisterCandidateTx\<close>, returning
  normally or throwing.
\<close>

definition makeRegisterCandidateTx ::
  "(int \<Rightarrow> error + unit) \<Rightarrow> string \<Rightarrow> string \<Rightarrow> int \<Rightarrow> Address \<Rightarrow> int \<Rightarrow> Address
     \<Rightarrow> string \<Rightarrow> string \<Rightarrow> error + Transaction" where
  "makeRegisterCandidateTx varifyPositiveInt ontid peerPubKey keyNo userAddr initPos
       payer gasPrice gasLimit =
     andThen (varifyPositiveInt initPos) (\<lambda>_.
       let ontid = (if take 3 ontid = ''did'' then str2hexstr ontid else ontid);
           struct = Struct_new;
           struct = Struct_add struct
             [StrParam (str2hexstr peerPubKey), StrParam (Address_serialize userAddr),
              NumParam initPos, StrParam ontid, NumParam keyNo];
           params = buildNativeCodeScript [struct]
       in Inr (makeNativeContractTx ''registerCandidate'' params contractAddress
                 gasPrice gasLimit payer))"

text \<open>
  The struct of the five operations that take a list of peers and a list of amounts:
  the user's address, the number of peers, each peer's key in hex, the number of amounts,
  each amount.
\<close>

definition peerListStruct :: "Address \<Rightarrow> string list \<Rightarrow> int list \<Rightarrow> Struct" where
  "peerListStruct userAddr peerPubKeys posList =
     (let struct = Struct_new;
          struct = Struct_add struct [StrParam (Address_serialize userAddr)];
          struct = Struct_add struct [NumParam (int (length peerPubKeys))];
          struct = foldl (\<lambda>struct p. Struct_add struct [StrParam (str2hexstr p)])
                     struct peerPubKeys;
          struct = Struct_add struct [NumParam (int (length posList))];
          struct = foldl (\<lambda>struct n. Struct_add struct [NumParam n]) struct posList
      in struct)"

definition makeVoteForPeerTx ::
  "Address \<Rightarrow> string list \<Rightarrow> int list \<Rightarrow> Address \<Rightarrow> string \<Rightarrow> string
     \<Rightarrow> error + Transaction" where
  "makeVoteForPeerTx userAddr peerPubKeys posList payer gasPrice gasLimit =
     (if length peerPubKeys \<noteq> length posList then Inl InvalidParams
      else
        let struct = peerListStruct userAddr peerPubKeys posList;
            params = buildNativeCodeScript [struct]
        in Inr (makeNativeContractTx ''voteForPeer'' params contractAddress
                  gasPrice gasLimit payer))"

definition makeUnvoteForPeerTx ::
  "Address \<Rightarrow> string list \<Rightarrow> int list \<Rightarrow> Address \<Rightarrow> string \<Rightarrow> string
     \<Rightarrow> error + Transaction" where
  "makeUnvoteForPeerTx userAddr peerPubKeys posList payer gasPrice gasLimit =
     (if length peerPubKeys \<noteq> length posList then Inl InvalidParams
      else
        let struct = peerListStruct userAddr peerPubKeys posList;
            params = buildNativeCodeScript [struct]
        in Inr (makeNativeContractTx ''unVoteForPeer'' params contractAddress
                  gasPrice gasLimit payer))"

definition makeWithdrawTx ::
  "Address \<Rightarrow> string list \<Rightarrow> int list \<Rightarrow> Address \<Rightarrow> string \<Rightarrow> string
     \<Rightarrow> error + Transaction" where
  "makeWithdrawTx userAddr peerPubKeys withdrawList payer gasPrice gasLimit =
     (if length peerPubKeys \<noteq> length withdrawList then Inl InvalidParams
      else
        let struct = peerListStruct userAddr peerPubKeys withdrawList;
            params = buildNativeCodeScript [struct]
        in Inr (makeNativeContractTx ''withdraw'' params contractAddress
                  gasPrice gasLimit payer))"

definition makeAuthorizeForPeerTx ::
  "Address \<Rightarrow> string list \<Rightarrow> int list \<Rightarrow> Address \<Rightarrow> string \<Rightarrow> string
     \<Rightarrow> error + Transaction" where
  "makeAuthorizeForPeerTx userAddr peerPubKeyList posList payer gasPrice gasLimit =
     (let struct = peerListStruct userAddr peerPubKeyList posList;
          params = buildNativeCodeScript [struct]
      in Inr (makeNativeContractTx ''authorizeForPeer'' params contractAddress
                gasPrice gasLimit payer))"

definition makeUnauthorizeForPeerTx ::
  "Address \<Rightarrow> string list \<Rightarrow> int list \<Rightarrow> Address \<Rightarrow> string \<Rightarrow> string
     \<Rightarrow> error + Transaction" where
  "makeUnauthorizeForPeerTx userAddr peerPubKeyList posList payer gasPrice gasLimit =
     (let struct = peerListStruct userAddr peerPubKeyList posList;
          params = buildNativeCodeScript [struct]
      in Inr (makeNativeContractTx ''unAuthorizeForPeer'' params contractAddress
                gasPrice gasLimit payer))"

section \<open>Governance records (\<^verbatim>\<open>governanceContractTxBuilder.ts\<close>)\<close>

record GovernanceView =
  view :: nat
  height :: nat
  txhash :: string


definition GovernanceView_serialize :: "GovernanceView \<Rightarrow> string" where
  "GovernanceView_serialize this =
     num2hexstring (view this) 4 True
     @ num2hexstring (height this) 4 True
     @ hex2VarBytes (txhash this)"

record PeerPoolItem =
  index :: nat
  peerPubkey :: string
  address :: Address
  status :: nat
  initPos :: nat
  totalPos :: nat

definition PeerPoolItem_deserialize ::
  "StringReader \<Rightarrow> error + (PeerPoolItem \<times> StringReader)" where
  "PeerPoolItem_deserialize sr =
     andThen (readInt sr) (\<lambda>(index, sr).
     andThen (readNextBytes sr) (\<lambda>(hex, sr).
     andThen (hexstr2str hex) (\<lambda>peerPubkey.
     andThen (Address_deserialize sr) (\<lambda>(address, sr).
     andThen (read 1 sr) (\<lambda>(digits, sr).
     andThen (parseInt16 digits) (\<lambda>status.
     andThen (readLong sr) (\<lambda>(initPos, sr).
     andThen (readLong sr) (\<lambda>(totalPos, sr).
     Inr (\<lparr>index = index, PeerPoolItem.peerPubkey = peerPubkey,
           PeerPoolItem.address = address, status = status,
           initPos = initPos, totalPos = totalPos\<rparr>, sr)))))))))"

definition PeerPoolItem_serialize :: "PeerPoolItem \<Rightarrow> string" where
  "PeerPoolItem_serialize this =
     num2hexstring (index this) 4 True
     @ str2VarBytes (PeerPoolItem.peerPubkey this)
     @ Address_serialize (PeerPoolItem.address this)
     @ num2hexstring (status this) 1 False
     @ num2hexstring (initPos this) 8 True
     @ num2hexstring (totalPos this) 8 True"

text \<open>
  The three records below are also handed out as \<^verbatim>\<open>new PeerAttributes()\<close>,
  \<^verbatim>\<open>new SplitFeeAddress()\<close> and \<^verbatim>\<open>new AuthorizeInfo()\<close>, with no field assigned:
  a field is \<open>None\<close> until \<^verbatim>\<open>deserialize\<close> assigns it. Only
  \<^verbatim>\<open>SplitFeeAddress.amount\<close> has an initial value, \<^verbatim>\<open>0\<close>.
\<close>

record PeerAttributes =
  peerPubkey :: "string option"
  ifAuthorize :: "nat option"
  oldPeerCost :: "nat option"
  newPeerCost :: "nat option"
  setCostView :: "nat option"
  field1 :: "string option"
  field2 :: "string option"
  field3 :: "string option"
  field4 :: "string option"

definition PeerAttributes_new :: PeerAttributes where
  "PeerAttributes_new =
     \<lparr>PeerAttributes.peerPubkey = None, ifAuthorize = None, oldPeerCost = None,
      newPeerCost = None, setCostView = None,
      field1 = None, field2 = None, field3 = None, field4 = None\<rparr>"

definition PeerAttributes_deserialize ::
  "StringReader \<Rightarrow> error + (PeerAttributes \<times> StringReader)" where
  "PeerAttributes_deserialize sr =
     andThen (readNextBytes sr) (\<lambda>(hex, sr).
     andThen (hexstr2str hex) (\<lambda>peerPubkey.
     andThen (readNextLen sr) (\<lambda>(ifAuthorize, sr).
     andThen (readLong sr) (\<lambda>(oldPeerCost, sr).
     andThen (readLong sr) (\<lambda>(newPeerCost, sr).
     andThen (readUint32 sr) (\<lambda>(setCostView, sr).
     andThen (readNextBytes sr) (\<lambda>(field1, sr).
     andThen (readNextBytes sr) (\<lambda>(field2, sr).
     andThen (readNextBytes sr) (\<lambda>(field3, sr).
     andThen (readNextBytes sr) (\<lambda>(field4, sr).
     Inr (PeerAttributes_new
           \<lparr>PeerAttributes.peerPubkey := Some peerPubkey, ifAuthorize := Some ifAuthorize,
            oldPeerCost := Some oldPeerCost, newPeerCost := Some newPeerCost,
            setCostView := Some setCostView,
            field1 := Some field1, field2 := Some field2,
            field3 := Some field3, field4 := Some field4\<rparr>, sr)))))))))))"

definition PeerAttributes_serialize :: "PeerAttributes \<Rightarrow> string" where
  "PeerAttributes_serialize this = ''''"

record SplitFeeAddress =
  address :: "Address option"
  amount :: nat

definition SplitFeeAddress_new :: SplitFeeAddress where
  "SplitFeeAddress_new = \<lparr>SplitFeeAddress.address = None, amount = 0\<rparr>"

definition SplitFeeAddress_deserialize ::
  "StringReader \<Rightarrow> error + (SplitFeeAddress \<times> StringReader)" where
  "SplitFeeAddress_deserialize sr =
     andThen (Address_deserialize sr) (\<lambda>(address, sr).
     andThen (readLong sr) (\<lambda>(amount, sr).
     Inr (SplitFeeAddress_new
           \<lparr>SplitFeeAddress.address := Some address, amount := amount\<rparr>, sr)))"

record AuthorizeInfo =
  peerPubkey :: "string option"
  address :: "Address option"
  consensusPos :: "nat option"
  freezePos :: "nat option"
  newPos :: "nat option"
  withdrawPos :: "nat option"
  withdrawFreezePos :: "nat option"
  withdrawUnfreezePos :: "nat option"

definition AuthorizeInfo_new :: AuthorizeInfo where
  "AuthorizeInfo_new =
     \<lparr>AuthorizeInfo.peerPubkey = None, AuthorizeInfo.address = None, consensusPos = None,
      freezePos = None, newPos = None, withdrawPos = None,
      withdrawFreezePos = None, withdrawUnfreezePos = None\<rparr>"

definition AuthorizeInfo_deserialize ::
  "StringReader \<Rightarrow> error + (AuthorizeInfo \<times> StringReader)" where
  "AuthorizeInfo_deserialize sr =
     andThen (readNextBytes sr) (\<lambda>(hex, sr).
     andThen (hexstr2str hex) (\<lambda>peerPubkey.
     andThen (Address_deserialize sr) (\<lambda>(address, sr).
     andThen (readLong sr) (\<lambda>(consensusPos, sr).
     andThen (readLong sr) (\<lambda>(freezePos, sr).
     andThen (readLong sr) (\<lambda>(newPos, sr).
     andThen (readLong sr) (\<lambda>(withdrawPos, sr).
     andThen (readLong sr) (\<lambda>(withdrawFreezePos, sr).
     andThen (readLong sr) (\<lambda>(withdrawUnfreezePos, sr).
     Inr (AuthorizeInfo_new
           \<lparr>AuthorizeInfo.peerPubkey := Some peerPubkey,
            AuthorizeInfo.address := Some address,
            consensusPos := Some consensusPos, freezePos := Some freezePos,
            newPos := Some newPos, withdrawPos := Some withdrawPos,
            withdrawFreezePos := Some withdrawFreezePos,
            withdrawUnfreezePos := Some withdrawUnfreezePos\<rparr>, sr))))))))))"

section \<open>Storage queries\<close>

text \<open>
  The parameter \<open>getStorage\<close> is \<^verbatim>\<open>restClient.getStorage(codeHash, key)\<close> for the
  governance contract, as a function of the key, giving the \<^verbatim>\<open>Result\<close> field of the
  response. The empty string stands for an empty result: \<^verbatim>\<open>if (result)\<close> takes
  JavaScript's \<^verbatim>\<open>null\<close> and \<^verbatim>\<open>''\<close> alike for absent.
\<close>

definition getAttributes :: "(string \<Rightarrow> string) \<Rightarrow> string \<Rightarrow> error + PeerAttributes" where
  "getAttributes getStorage peerPubKey =
     (let key = str2hexstr PEER_ATTRIBUTES @ peerPubKey;
          result = getStorage key
      in if result \<noteq> []
         then andThen (PeerAttributes_deserialize (StringReader_new result)) (\<lambda>(pr, sr). Inr pr)
         else Inr PeerAttributes_new)"

definition getSplitFeeAddress :: "(string \<Rightarrow> string) \<Rightarrow> Address \<Rightarrow> error + SplitFeeAddress" where
  "getSplitFeeAddress getStorage address' =
     (let key = str2hexstr SPLIT_FEE_ADDRESS @ Address_serialize address';
          result = getStorage key
      in if result \<noteq> []
         then andThen (SplitFeeAddress_deserialize (StringReader_new result)) (\<lambda>(sfa, sr). Inr sfa)
         else Inr SplitFeeAddress_new)"

definition getAuthorizeInfo ::
  "(string \<Rightarrow> string) \<Rightarrow> string \<Rightarrow> Address \<Rightarrow> error + AuthorizeInfo" where
  "getAuthorizeInfo getStorage peerPubKey address' =
     (let key = str2hexstr AUTHORIZE_INFO_POOL @ peerPubKey @ Address_serialize address';
          result = getStorage key
      in if result \<noteq> []
         then andThen (AuthorizeInfo_deserialize (StringReader_new result)) (\<lambda>(ai, sr). Inr ai)
         else Inr AuthorizeInfo_new)"








section \<open>A worked example\<close>


section \<open>Hex digits and digit strings\<close>

lemma hexChar_simps:
  "hexChar 0 = CHR ''0''" "hexChar 1 = CHR ''1''" "hexChar 2 = CHR ''2''" "hexChar 3 = CHR ''3''"
  "hexChar 4 = CHR ''4''" "hexChar 5 = CHR ''5''" "hexChar 6 = CHR ''6''" "hexChar 7 = CHR ''7''"
  "hexChar 8 = CHR ''8''" "hexChar 9 = CHR ''9''" "hexChar 10 = CHR ''a''" "hexChar 11 = CHR ''b''"
  "hexChar 12 = CHR ''c''" "hexChar 13 = CHR ''d''" "hexChar 14 = CHR ''e''" "hexChar 15 = CHR ''f''"
  "hexChar (Suc 0) = CHR ''1''"
  by (simp_all add: hexChar_def char_of_eq_iff)

lemma hexValue_hexChar: "d < 16 \<Longrightarrow> hexValue (hexChar d) = Some d"
  by (auto simp add: hexValue_def hexChar_def Let_def)

lemma hexValue_less: "hexValue c = Some d \<Longrightarrow> d < 16"
  by (auto simp add: hexValue_def Let_def split: if_splits)

lemma hexValue_zero: "hexValue CHR ''0'' = Some 0"
  by (simp add: hexValue_def)

lemma parseDigits_snoc:
  "parseDigits acc (xs @ [c]) =
     (case parseDigits acc xs of None \<Rightarrow> None
      | Some v \<Rightarrow> (case hexValue c of None \<Rightarrow> None | Some d \<Rightarrow> Some (16 * v + d)))"
  by (induction xs arbitrary: acc) (auto split: option.splits)

lemma parseDigits_toString16: "parseDigits 0 (toString16 n) = Some n"
proof (induction n rule: toString16.induct)
  case (1 n)
  show ?case
  proof (cases "n < 16")
    case True
    then show ?thesis by (simp add: toString16.simps hexValue_hexChar)
  next
    case False
    with 1 have "parseDigits 0 (toString16 (n div 16)) = Some (n div 16)" by simp
    with False show ?thesis
      by (subst toString16.simps) (simp add: parseDigits_snoc hexValue_hexChar)
  qed
qed

lemma parseDigits_bound: "parseDigits acc m = Some n \<Longrightarrow> n < (acc + 1) * 16 ^ length m"
proof (induction m arbitrary: acc)
  case Nil
  then show ?case by simp
next
  case (Cons c cs)
  then obtain d where d: "hexValue c = Some d" and rest: "parseDigits (16 * acc + d) cs = Some n"
    by (auto split: option.splits)
  from Cons.IH [OF rest] have "n < (16 * acc + d + 1) * 16 ^ length cs" .
  also have "\<dots> \<le> (16 * acc + 16) * 16 ^ length cs"
    using hexValue_less [OF d] by (intro mult_le_mono1) simp
  finally show ?case by (simp add: algebra_simps)
qed

lemma length_toString16_pos: "0 < length (toString16 n)"
  by (subst toString16.simps) simp

lemma toString16_lower: "0 < n \<Longrightarrow> 16 ^ (length (toString16 n) - 1) \<le> n"
proof (induction n rule: toString16.induct)
  case (1 n)
  show ?case
  proof (cases "n < 16")
    case True
    with 1 show ?thesis by (simp add: toString16.simps)
  next
    case False
    then have pos: "0 < n div 16" by simp
    from 1 False pos have ih: "16 ^ (length (toString16 (n div 16)) - 1) \<le> n div 16" by simp
    have "16 ^ (length (toString16 n) - 1) = (16::nat) ^ length (toString16 (n div 16))"
      using False by (subst toString16.simps) simp
    also have "\<dots> = 16 * 16 ^ (length (toString16 (n div 16)) - 1)"
      using length_toString16_pos [of "n div 16"]
      by (cases "length (toString16 (n div 16))") simp_all
    also have "\<dots> \<le> 16 * (n div 16)" using ih by simp
    also have "\<dots> \<le> n" by simp
    finally show ?thesis .
  qed
qed

lemma toString16_minimal:
  assumes "m' \<noteq> []" and "parseDigits 0 m' = Some n"
  shows "length (toString16 n) \<le> length m'"
proof (cases "n = 0")
  case True
  with assms(1) show ?thesis by (cases m') (simp_all add: toString16.simps)
next
  case False
  then have "16 ^ (length (toString16 n) - 1) \<le> n" by (intro toString16_lower) simp
  also from parseDigits_bound [OF assms(2)] have "n < 16 ^ length m'" by simp
  finally have "length (toString16 n) - 1 < length m'" by simp
  then show ?thesis by simp
qed

lemma parseDigits_positional:
  "parseDigits acc ds = Some v \<Longrightarrow> v = acc * 16 ^ length ds + base16Value ds"
proof (induction ds arbitrary: acc)
  case Nil
  then show ?case by (simp add: base16Value_def)
next
  case (Cons c cs)
  then obtain d where d: "hexValue c = Some d" and rest: "parseDigits (16 * acc + d) cs = Some v"
    by (auto split: option.splits)
  let ?f = "\<lambda>i. the (hexValue ((c # cs) ! i)) * 16 ^ (length (c # cs) - 1 - i)"
  have "(\<Sum>i<length (c # cs). ?f i) = ?f 0 + (\<Sum>i<length cs. ?f (Suc i))"
    using sum.lessThan_Suc_shift [of ?f "length cs"] by simp
  also have "\<dots> = d * 16 ^ length cs + base16Value cs"
    using d by (simp add: base16Value_def)
  finally have "base16Value (c # cs) = d * 16 ^ length cs + base16Value cs"
    by (simp only: base16Value_def)
  then show ?case
    using Cons.IH [OF rest] by (simp add: algebra_simps)
qed

section \<open>Byte reversal\<close>

lemma hexBytes_concat: "(\<forall>b \<in> set bs. length b = 2) \<Longrightarrow> hexBytes (concat bs) = bs"
proof (induction bs)
  case Nil
  then show ?case by simp
next
  case (Cons b bs)
  then obtain x y where "b = [x, y]"
    by (cases b; cases "tl b"; cases "tl (tl b)") auto
  with Cons show ?case by simp
qed

lemma hexBytes_lengths: "\<forall>b \<in> set (hexBytes h). length b = 2"
  by (induction h rule: hexBytes.induct) auto

lemma concat_hexBytes: "even (length h) \<Longrightarrow> concat (hexBytes h) = h"
  by (induction h rule: hexBytes.induct) auto

lemma length_byteReverse: "even (length h) \<Longrightarrow> length (byteReverse h) = length h"
  unfolding byteReverse_def by (induction h rule: hexBytes.induct) auto

lemma reverseHex_even: "even (length h) \<Longrightarrow> reverseHex h = Inr (byteReverse h)"
  by (simp add: reverseHex_def byteReverse_def)

lemma byteReverse_involution:
  assumes "even (length h)"
  shows "byteReverse (byteReverse h) = h"
proof -
  have "hexBytes (concat (rev (hexBytes h))) = rev (hexBytes h)"
    by (rule hexBytes_concat) (simp add: hexBytes_lengths)
  with assms show ?thesis
    by (simp add: byteReverse_def concat_hexBytes)
qed

section \<open>Decimal numerals\<close>

lemma isDecimalDigit_char: "d < 10 \<Longrightarrow> isDecimalDigit (char_of (48 + d))" for d :: nat
  by (simp add: isDecimalDigit_def)

lemma decimal_digits: "list_all isDecimalDigit (decimal n)"
proof (induction n rule: decimal.induct)
  case (1 n)
  show ?case
  proof (cases "n < 10")
    case True
    then show ?thesis by (simp add: decimal.simps isDecimalDigit_char)
  next
    case False
    with 1 have "list_all isDecimalDigit (decimal (n div 10))" by simp
    with False show ?thesis
      by (subst decimal.simps) (simp add: isDecimalDigit_char)
  qed
qed

lemma decimal_not_empty: "decimal n \<noteq> []"
  by (subst decimal.simps) simp

lemma parseDecimal_snoc:
  "parseDecimal acc (xs @ [c]) = 10 * parseDecimal acc xs + (of_char c - 48)"
  by (induction xs arbitrary: acc) simp_all

lemma parseDecimal_decimal: "parseDecimal 0 (decimal n) = n"
proof (induction n rule: decimal.induct)
  case (1 n)
  show ?case
  proof (cases "n < 10")
    case True
    then show ?thesis by (simp add: decimal.simps)
  next
    case False
    with 1 have "parseDecimal 0 (decimal (n div 10)) = n div 10" by simp
    moreover have "(48 + n mod 10) mod 256 = 48 + n mod 10"
      by (rule mod_less) (simp add: less_le_trans [OF add_strict_left_mono [OF mod_less_divisor]])
    ultimately show ?thesis
      using False by (subst decimal.simps) (simp add: parseDecimal_snoc)
  qed
qed

section \<open>The big-integer codec\<close>

lemma toHexstr_zeroPadEven: "toHexstr this = reverseHex (zeroPadEven (toString16 (value this)))"
proof -
  have "(if length hex mod 2 \<noteq> 0 then CHR ''0'' # hex else hex) = zeroPadEven hex" for hex
    by (simp add: zeroPadEven_def even_iff_mod_2_eq_zero)
  then show ?thesis by (simp add: toHexstr_def Let_def)
qed

lemma even_length_zeroPadEven: "even (length (zeroPadEven hex))"
  by (simp add: zeroPadEven_def)

lemma parseDigits_zeroPadEven: "parseDigits 0 (zeroPadEven hex) = parseDigits 0 hex"
  by (simp add: zeroPadEven_def hexValue_zero)

lemma toHexstr_eq: "toHexstr this = Inr (byteReverse (zeroPadEven (toString16 (value this))))"
  by (simp only: toHexstr_zeroPadEven reverseHex_even [OF even_length_zeroPadEven])

lemma BigInt_of_nat: "BigInt_of (BN_Finite (of_nat n)) = Inr \<lparr>value = n\<rparr>"
  by (simp add: BigInt_of_def)

lemma of_int_floor_Ints: "of_int \<lfloor>r\<rfloor> = r \<longleftrightarrow> r \<in> \<int>" for r :: rat
  by (auto simp add: Ints_def)

lemma isInteger_Ints: "isInteger (BN_Finite r) \<longleftrightarrow> r \<in> \<int>"
  by (auto simp add: Ints_def)

lemma BigNumber_new_decimal: "BigNumber_new lib (JString (decimal n)) = Inr (BN_Finite (of_nat n))"
  by (simp add: decimal_not_empty decimal_digits parseDecimal_decimal)

lemma BigInt_new_decimal: "BigInt_new lib (JString (decimal n)) = Inr \<lparr>value = n\<rparr>"
  by (simp add: BigInt_new_def BigNumber_new_decimal BigInt_of_nat del: BigNumber_new.simps)

lemma fromHexstr_even:
  "even (length hex) \<Longrightarrow>
     fromHexstr other hex =
       (case BigNumber_base16 other (byteReverse hex) of Inl e \<Rightarrow> Inl e | Inr bn \<Rightarrow> BigInt_of bn)"
  by (simp add: fromHexstr_def reverseHex_even)

lemma fromHexstr_toHexstr:
  assumes "toHexstr this = Inr h"
  shows "fromHexstr other h = Inr \<lparr>value = value this\<rparr>"
proof -
  let ?p = "zeroPadEven (toString16 (value this))"
  from assms have h: "h = byteReverse ?p"
    by (simp only: toHexstr_eq sum.inject)
  have even_h: "even (length h)"
    unfolding h by (simp add: length_byteReverse even_length_zeroPadEven)
  have "byteReverse h = ?p"
    unfolding h by (rule byteReverse_involution) (rule even_length_zeroPadEven)
  moreover have "BigNumber_base16 other ?p = Inr (BN_Finite (of_nat (value this)))"
    by (simp only: BigNumber_base16_def parseDigits_zeroPadEven parseDigits_toString16 option.case)
  ultimately show ?thesis
    by (simp add: fromHexstr_even [OF even_h] BigInt_of_nat)
qed

text \<open>
  C1. Constructing a \<^verbatim>\<open>BigInt\<close> from the decimal numeral of a non-negative integer
  \<open>n\<close>, encoding it and decoding the hex gives a \<^verbatim>\<open>BigInt\<close> whose value is \<open>n\<close>.
  This holds for every \<open>n\<close>, so in particular up to \<open>2 ^ 64\<close>.
\<close>

theorem BigInt_roundtrip:
  "\<exists>b h b'. BigInt_new lib (JString (decimal n)) = Inr b
      \<and> BigInt_of (BN_Finite (of_nat n)) = Inr b
      \<and> toHexstr b = Inr h
      \<and> fromHexstr other h = Inr b' \<and> value b' = n"
proof -
  obtain h where h: "toHexstr \<lparr>value = n\<rparr> = Inr h"
    by (simp only: toHexstr_eq)
  from fromHexstr_toHexstr [OF h, of other]
  have "fromHexstr other h = Inr \<lparr>value = n\<rparr>" by simp
  with h BigInt_of_nat [of n] BigInt_new_decimal [of lib n] show ?thesis by auto
qed

theorem BigInt_roundtrip_witness:
  "BigInt_new (\<lambda>s. Inl LibraryError) (JString ''18446744073709551616'') = Inr \<lparr>value = 2 ^ 64\<rparr>
     \<and> toHexstr \<lparr>value = 2 ^ 64\<rparr> = Inr ''000000000000000001''
     \<and> fromHexstr (\<lambda>s. Inl LibraryError) ''000000000000000001'' = Inr \<lparr>value = 2 ^ 64\<rparr>"
proof -
  have d: "decimal (2 ^ 64) = ''18446744073709551616''"
    by (simp add: decimal.simps char_of_eq_iff)
  have h: "toHexstr \<lparr>value = 2 ^ 64\<rparr> = Inr ''000000000000000001''"
    by (simp add: toHexstr_def reverseHex_def toString16.simps hexChar_simps)
  from BigInt_roundtrip [of "\<lambda>s. Inl LibraryError" "2 ^ 64" "\<lambda>s. Inl LibraryError"]
  obtain b h' b' where
    new: "BigInt_new (\<lambda>s. Inl LibraryError) (JString (decimal (2 ^ 64))) = Inr b"
    and b: "BigInt_of (BN_Finite (of_nat (2 ^ 64))) = Inr b"
    and enc: "toHexstr b = Inr h'"
    and dec: "fromHexstr (\<lambda>s. Inl LibraryError) h' = Inr b'" and v: "value b' = 2 ^ 64"
    by (elim exE conjE)
  from b have b_eq: "b = \<lparr>value = 2 ^ 64\<rparr>"
    by (simp only: BigInt_of_nat sum.inject)
  from enc h have h_eq: "h' = ''000000000000000001''"
    by (simp only: b_eq sum.inject)
  from v have "b' = \<lparr>value = 2 ^ 64\<rparr>"
    by (cases b') simp
  with new dec h show ?thesis
    unfolding d b_eq h_eq by simp
qed

text \<open>
  C2, as stated, fails: the encoding of zero is the single zero byte \<^verbatim>\<open>00\<close>, not the
  empty byte sequence. \<^verbatim>\<open>toString(16)\<close> of zero is the digit \<^verbatim>\<open>0\<close>, which
  \<^verbatim>\<open>toHexstr\<close> pads to \<^verbatim>\<open>00\<close>.
\<close>

theorem BigInt_zero_encoding_counterexample:
  "BigInt_new (\<lambda>s. Inl LibraryError) (JNumber (JS_Finite False 0 0)) = Inr \<lparr>value = 0\<rparr>
     \<and> BigInt_new (\<lambda>s. Inl LibraryError) (JString ''0'') = Inr \<lparr>value = 0\<rparr>
     \<and> toHexstr \<lparr>value = 0\<rparr> = Inr ''00''
     \<and> toHexstr \<lparr>value = 0\<rparr> \<noteq> Inr ''''"
  by (simp add: BigInt_new_def BigInt_of_def sigDigits_def isDecimalDigit_def
      toHexstr_def reverseHex_def toString16.simps hexChar_simps)

text \<open>
  C2, amended. Encoding zero gives the single zero byte \<^verbatim>\<open>00\<close>; decoding the empty
  byte sequence gives zero, and so does decoding \<^verbatim>\<open>00\<close>.
\<close>

theorem BigInt_zero:
  "BigInt_new lib (JNumber (JS_Finite False 0 0)) = Inr \<lparr>value = 0\<rparr>
     \<and> BigInt_new lib (JString ''0'') = Inr \<lparr>value = 0\<rparr>
     \<and> BigInt_of (BN_Finite 0) = Inr \<lparr>value = 0\<rparr>
     \<and> toHexstr \<lparr>value = 0\<rparr> = Inr ''00''
     \<and> fromHexstr other '''' = Inr \<lparr>value = 0\<rparr>
     \<and> fromHexstr other ''00'' = Inr \<lparr>value = 0\<rparr>"
  by (simp add: BigInt_new_def BigInt_of_def sigDigits_def isDecimalDigit_def
      toHexstr_def fromHexstr_def reverseHex_def toString16.simps
      hexChar_simps BigNumber_base16_def hexValue_def)

theorem BigInt_zero_witness:
  "fromHexstr (\<lambda>s. Inl LibraryError) '''' = Inr \<lparr>value = 0\<rparr>
     \<and> fromHexstr (\<lambda>s. Inr BN_NaN) ''00'' = Inr \<lparr>value = 0\<rparr>
     \<and> BigInt_new (\<lambda>s. Inl LibraryError) (JString ''0'') = Inr \<lparr>value = 0\<rparr>"
  using BigInt_zero [of "\<lambda>s. Inl LibraryError" "\<lambda>s. Inl LibraryError"]
    BigInt_zero [of "\<lambda>s. Inl LibraryError" "\<lambda>s. Inr BN_NaN"]
  by (simp del: BigNumber_new.simps)

text \<open>
  C5. \<^verbatim>\<open>toHexstr\<close> returns the byte reversal of the zero-padded shortest hex digit
  string \<open>m\<close> that denotes the value: \<open>m\<close> is not empty, reads as the value, and no
  non-empty digit string that reads as the value is shorter. \<^verbatim>\<open>fromHexstr\<close>, given a
  whole number of bytes, reverses them and reads the digits as a base-16 integer.
\<close>

theorem BigInt_encoding_rule:
  "(\<exists>m. m \<noteq> [] \<and> parseDigits 0 m = Some (value this) \<and> base16Value m = value this
        \<and> (\<forall>m'. m' \<noteq> [] \<and> parseDigits 0 m' = Some (value this) \<longrightarrow> length m \<le> length m')
        \<and> toHexstr this = Inr (byteReverse (zeroPadEven m)))
   \<and> (even (length hex) \<and> parseDigits 0 (byteReverse hex) = Some v \<longrightarrow>
         v = base16Value (byteReverse hex) \<and> fromHexstr other hex = Inr \<lparr>value = v\<rparr>)"
proof -
  let ?m = "toString16 (value this)"
  have "?m \<noteq> []" using length_toString16_pos [of "value this"] by auto
  moreover have "parseDigits 0 ?m = Some (value this)" by (rule parseDigits_toString16)
  moreover from parseDigits_positional [OF this] have "base16Value ?m = value this" by simp
  moreover have "\<forall>m'. m' \<noteq> [] \<and> parseDigits 0 m' = Some (value this) \<longrightarrow> length ?m \<le> length m'"
    by (auto intro: toString16_minimal)
  moreover have "toHexstr this = Inr (byteReverse (zeroPadEven ?m))" by (rule toHexstr_eq)
  moreover have "v = base16Value (byteReverse hex) \<and> fromHexstr other hex = Inr \<lparr>value = v\<rparr>"
    if "even (length hex) \<and> parseDigits 0 (byteReverse hex) = Some v"
    using that parseDigits_positional [of 0 "byteReverse hex" v]
    by (simp add: fromHexstr_even BigNumber_base16_def BigInt_of_nat)
  ultimately show ?thesis by blast
qed

theorem BigInt_encoding_rule_witness:
  "toHexstr \<lparr>value = 1000\<rparr> = Inr ''e803''
     \<and> base16Value ''03e8'' = 1000
     \<and> fromHexstr (\<lambda>s. Inl LibraryError) ''e803'' = Inr \<lparr>value = 1000\<rparr>"
proof -
  have enc: "toHexstr \<lparr>value = 1000\<rparr> = Inr ''e803''"
    by (simp add: toHexstr_def reverseHex_def toString16.simps hexChar_simps)
  have rev: "byteReverse ''e803'' = ''03e8''" by (simp add: byteReverse_def)
  have "even (length ''e803'') \<and> parseDigits 0 (byteReverse ''e803'') = Some 1000"
    by (simp add: rev hexValue_def)
  with BigInt_encoding_rule [of "\<lparr>value = 1000\<rparr>" "''e803''" 1000 "\<lambda>s. Inl LibraryError"]
  have "1000 = base16Value (byteReverse ''e803'')
      \<and> fromHexstr (\<lambda>s. Inl LibraryError) ''e803'' = Inr \<lparr>value = 1000\<rparr>"
    by blast
  with enc rev show ?thesis by simp
qed

section \<open>Construction of a big integer\<close>

lemma magnitude_nonneg: "0 \<le> magnitude c e"
  by (simp add: magnitude_def)

lemma magnitude_Ints: "magnitude c e \<in> \<int> \<longleftrightarrow> 0 \<le> e \<or> 10 ^ nat (- e) dvd c"
proof (cases "0 \<le> e")
  case True
  then show ?thesis by (simp add: magnitude_def)
next
  case False
  let ?k = "nat (- e)"
  have "(of_nat c / 10 ^ ?k :: rat) \<in> \<int> \<longleftrightarrow> 10 ^ ?k dvd c"
  proof
    assume "(of_nat c / 10 ^ ?k :: rat) \<in> \<int>"
    then obtain z :: int where z: "of_nat c / 10 ^ ?k = (of_int z :: rat)"
      by (auto simp add: Ints_def)
    then have "(of_nat c :: rat) = of_int z * 10 ^ ?k"
      by (simp add: field_simps)
    then have "(of_int (int c) :: rat) = of_int (z * 10 ^ ?k)"
      by simp
    then have eq: "int c = z * 10 ^ ?k"
      by (simp only: of_int_eq_iff)
    then have "0 \<le> z"
      by (metis of_nat_0_le_iff zero_le_mult_iff zero_less_numeral zero_less_power not_less
          mult_less_0_iff less_le)
    then obtain m where "z = int m" by (auto dest: zero_le_imp_eq_int)
    with eq have "int c = int (m * 10 ^ ?k)" by simp
    then have "c = m * 10 ^ ?k" by (simp only: of_nat_eq_iff)
    then show "10 ^ ?k dvd c" by simp
  next
    assume "10 ^ ?k dvd c"
    then obtain m where "c = 10 ^ ?k * m" by (auto elim: dvdE)
    then show "(of_nat c / 10 ^ ?k :: rat) \<in> \<int>" by simp
  qed
  with False show ?thesis by (simp add: magnitude_def)
qed

lemma magnitude_floor: "of_int \<lfloor>magnitude c e\<rfloor> = magnitude c e \<longleftrightarrow> 0 \<le> e \<or> 10 ^ nat (- e) dvd c"
  by (simp only: of_int_floor_Ints magnitude_Ints)

lemma BigNumber_new_finite:
  "BigNumber_new lib (JNumber (JS_Finite neg c e)) =
     (if 15 < sigDigits c \<and> (MAX_SAFE_INTEGER < magnitude c e \<or> magnitude c e \<notin> \<int>)
      then Inl LibraryError
      else if c = 0 then Inr (if neg then BN_NegZero else BN_Finite 0)
      else Inr (BN_Finite (if neg then - magnitude c e else magnitude c e)))"
  by (simp only: BigNumber_new.simps Let_def of_int_floor_Ints)

lemma BigInt_of_neg: "0 < r \<Longrightarrow> BigInt_of (BN_Finite (- r)) = Inl InvalidParams"
  by (simp add: BigInt_of_def)

lemma BigInt_of_nonint: "r \<notin> \<int> \<Longrightarrow> BigInt_of (BN_Finite r) = Inl InvalidParams"
  using isInteger_Ints [of r] by (simp add: BigInt_of_def del: isInteger.simps)

lemma BigInt_of_int:
  assumes "0 \<le> r" and "r \<in> \<int>"
  shows "\<exists>b. BigInt_of (BN_Finite r) = Inr b \<and> of_nat (value b) = r"
proof -
  from assms obtain k where k: "r = of_int k" by (auto simp add: Ints_def)
  with assms have "0 \<le> k" by simp
  with k show ?thesis by (simp add: BigInt_of_def)
qed

lemma BigInt_of_Inr:
  "BigInt_of bi = Inr b \<Longrightarrow> isInteger bi \<and> \<not> isNegative bi \<and> bi = BN_Finite (of_nat (value b))"
  by (cases bi) (auto simp add: BigInt_of_def split: if_splits)

text \<open>
  C4, as stated, fails twice. The constructor throws \<^verbatim>\<open>ERROR_CODE.INVALID_PARAMS\<close>,
  the error of the mismatched lists, where the claim names a separate
  \<open>InvalidValue\<close>: so for \<^verbatim>\<open>-1\<close> and for \<^verbatim>\<open>1.5\<close>. And where
  \<^verbatim>\<open>new BigNumber(value)\<close> throws by itself, the constructor fails with the library's
  error, whether the value is an integer or not: so for the number primitives
  \<^verbatim>\<open>2 ** 64\<close>, a non-negative integer, and \<^verbatim>\<open>1 / 3\<close>, which prints as
  \<^verbatim>\<open>0.3333333333333333\<close>.
\<close>

theorem BigInt_new_error_counterexample:
  "BigInt_new (\<lambda>s. Inl LibraryError) (JNumber (JS_Finite True 1 0)) = Inl InvalidParams
     \<and> BigInt_new (\<lambda>s. Inl LibraryError) (JNumber (JS_Finite True 1 0)) \<noteq> Inl InvalidValue
     \<and> BigInt_new (\<lambda>s. Inl LibraryError) (JNumber (JS_Finite False 15 (- 1))) = Inl InvalidParams
     \<and> BigInt_new (\<lambda>s. Inl LibraryError) (JNumber (JS_Finite False 15 (- 1))) \<noteq> Inl InvalidValue
     \<and> BigInt_new (\<lambda>s. Inl LibraryError) (JNumber (JS_Finite False 18446744073709552 3))
         = Inl LibraryError
     \<and> BigInt_new (\<lambda>s. Inl LibraryError) (JNumber (JS_Finite False 3333333333333333 (- 16)))
         = Inl LibraryError"
proof -
  let ?lib = "\<lambda>s::string. (Inl LibraryError :: error + BigNumber)"
  have s1: "sigDigits 1 = 1" and s15: "sigDigits 15 = 2"
    and s64: "sigDigits 18446744073709552 = 17" and s3: "sigDigits 3333333333333333 = 16"
    by (simp_all add: sigDigits_def stripZeros.simps numDigits.simps)
  have m1: "magnitude 1 0 = 1" and m64: "magnitude 18446744073709552 3 = 18446744073709552000"
    by (simp_all add: magnitude_def)
  have i15: "magnitude 15 (- 1) \<notin> \<int>" and i3: "magnitude 3333333333333333 (- 16) \<notin> \<int>"
    by (simp_all add: magnitude_Ints)
  have "BigNumber_new ?lib (JNumber (JS_Finite True 1 0)) = Inr (BN_Finite (- 1))"
    by (simp only: BigNumber_new_finite s1 m1) simp
  then have a: "BigInt_new ?lib (JNumber (JS_Finite True 1 0)) = Inl InvalidParams"
    by (simp only: BigInt_new_def sum.case) (simp add: BigInt_of_def)
  have "BigNumber_new ?lib (JNumber (JS_Finite False 15 (- 1))) = Inr (BN_Finite (magnitude 15 (- 1)))"
    by (simp only: BigNumber_new_finite s15) simp
  then have b: "BigInt_new ?lib (JNumber (JS_Finite False 15 (- 1))) = Inl InvalidParams"
    by (simp only: BigInt_new_def sum.case BigInt_of_nonint [OF i15])
  have "BigNumber_new ?lib (JNumber (JS_Finite False 18446744073709552 3)) = Inl LibraryError"
    by (simp only: BigNumber_new_finite s64 m64) (simp add: MAX_SAFE_INTEGER_def)
  then have c: "BigInt_new ?lib (JNumber (JS_Finite False 18446744073709552 3)) = Inl LibraryError"
    by (simp only: BigInt_new_def sum.case)
  have "BigNumber_new ?lib (JNumber (JS_Finite False 3333333333333333 (- 16))) = Inl LibraryError"
    using i3 by (simp only: BigNumber_new_finite s3) simp
  then have d: "BigInt_new ?lib (JNumber (JS_Finite False 3333333333333333 (- 16))) = Inl LibraryError"
    by (simp only: BigInt_new_def sum.case)
  from a b c d show ?thesis by simp
qed

text \<open>
  C4, amended. The constructor first builds \<^verbatim>\<open>new BigNumber(value)\<close>. Where the
  library throws there, construction fails with the library's error: it does so for a
  finite number primitive with more than 15 significant digits that is above
  \<^verbatim>\<open>MAX_SAFE_INTEGER\<close> or not an integer. For every other value that is negative (the
  number \<^verbatim>\<open>-0\<close> too) or not an integer (a fraction, not-a-number, an infinity)
  construction fails with \<open>InvalidParams\<close>; for every other non-negative integer, a
  string of decimal digits among them, it succeeds and keeps that integer. All of this
  happens at construction, and \<^verbatim>\<open>toHexstr\<close> returns a hex string for every
  constructed \<^verbatim>\<open>BigInt\<close>.
\<close>

theorem BigInt_new_invariant:
  "(BigNumber_new lib v = Inl err \<longrightarrow> BigInt_new lib v = Inl err)
   \<and> (BigNumber_new lib v = Inr bi \<and> (\<not> isInteger bi \<or> isNegative bi) \<longrightarrow>
        BigInt_new lib v = Inl InvalidParams)
   \<and> (BigNumber_new lib v = Inr bi \<and> isInteger bi \<and> \<not> isNegative bi \<longrightarrow>
        (\<exists>b. BigInt_new lib v = Inr b \<and> bi = BN_Finite (of_nat (value b))))
   \<and> (BigInt_new lib v = Inr b \<longrightarrow> (\<exists>h. toHexstr b = Inr h))
   \<and> BigInt_new lib (JNumber JS_NaN) = Inl InvalidParams
   \<and> BigInt_new lib (JNumber (JS_Infinity neg)) = Inl InvalidParams
   \<and> (15 < sigDigits c \<and> (MAX_SAFE_INTEGER < magnitude c e \<or> magnitude c e \<notin> \<int>) \<longrightarrow>
        BigInt_new lib (JNumber (JS_Finite neg' c e)) = Inl LibraryError)
   \<and> (\<not> (15 < sigDigits c \<and> (MAX_SAFE_INTEGER < magnitude c e \<or> magnitude c e \<notin> \<int>))
        \<and> (neg' \<or> magnitude c e \<notin> \<int>) \<longrightarrow>
        BigInt_new lib (JNumber (JS_Finite neg' c e)) = Inl InvalidParams)
   \<and> (\<not> (15 < sigDigits c \<and> MAX_SAFE_INTEGER < magnitude c e)
        \<and> \<not> neg' \<and> magnitude c e \<in> \<int> \<longrightarrow>
        (\<exists>b. BigInt_new lib (JNumber (JS_Finite neg' c e)) = Inr b
           \<and> of_nat (value b) = magnitude c e))
   \<and> (s \<noteq> [] \<and> list_all isDecimalDigit s \<longrightarrow>
        BigInt_new lib (JString s) = Inr \<lparr>value = parseDecimal 0 s\<rparr>)"
proof -
  have 1: "BigInt_new lib v = Inl err" if "BigNumber_new lib v = Inl err"
    using that by (simp add: BigInt_new_def)
  have 2: "BigInt_new lib v = Inl InvalidParams"
    if "BigNumber_new lib v = Inr bi \<and> (\<not> isInteger bi \<or> isNegative bi)"
    using that by (auto simp add: BigInt_new_def BigInt_of_def)
  have 3: "\<exists>b. BigInt_new lib v = Inr b \<and> bi = BN_Finite (of_nat (value b))"
    if "BigNumber_new lib v = Inr bi \<and> isInteger bi \<and> \<not> isNegative bi"
  proof -
    from that have "BigInt_of bi = Inr \<lparr>value = integerValue bi\<rparr>"
      by (simp add: BigInt_of_def)
    with BigInt_of_Inr [OF this] that show ?thesis
      by (simp add: BigInt_new_def)
  qed
  have 4: "\<exists>h. toHexstr b = Inr h"
    by (simp only: toHexstr_eq) blast
  have 5: "BigInt_new lib (JNumber JS_NaN) = Inl InvalidParams"
    "BigInt_new lib (JNumber (JS_Infinity neg)) = Inl InvalidParams"
    by (simp_all add: BigInt_new_def BigInt_of_def)
  let ?n = "magnitude c e"
  let ?refused = "15 < sigDigits c \<and> (MAX_SAFE_INTEGER < ?n \<or> ?n \<notin> \<int>)"
  have 6: "BigInt_new lib (JNumber (JS_Finite neg' c e)) = Inl LibraryError" if "?refused"
    by (simp only: BigInt_new_def BigNumber_new_finite if_P [OF that] sum.case)
  have new: "BigNumber_new lib (JNumber (JS_Finite neg' c e))
      = (if c = 0 then Inr (if neg' then BN_NegZero else BN_Finite 0)
         else Inr (BN_Finite (if neg' then - ?n else ?n)))"
    if "\<not> ?refused"
    by (simp only: BigNumber_new_finite if_not_P [OF that])
  have pos: "0 < ?n" if "c \<noteq> 0"
    using that by (simp add: magnitude_def)
  have zero: "?n = 0" if "c = 0"
    using that by (simp add: magnitude_def)
  have 7: "BigInt_new lib (JNumber (JS_Finite neg' c e)) = Inl InvalidParams"
    if "\<not> ?refused \<and> (neg' \<or> ?n \<notin> \<int>)"
  proof -
    from that have ok: "\<not> ?refused" by (rule conjunct1)
    note eq = new [OF ok]
    show ?thesis
    proof (cases "c = 0")
      case True
      with that zero have "neg'" by auto
      with True have "BigNumber_new lib (JNumber (JS_Finite neg' c e)) = Inr BN_NegZero"
        unfolding eq by simp
      then show ?thesis
        by (simp only: BigInt_new_def sum.case) (simp add: BigInt_of_def)
    next
      case False
      show ?thesis
      proof (cases neg')
        case True
        with False have "BigNumber_new lib (JNumber (JS_Finite neg' c e)) = Inr (BN_Finite (- ?n))"
          unfolding eq by simp
        then show ?thesis
          by (simp only: BigInt_new_def sum.case BigInt_of_neg [OF pos [OF False]])
      next
        case nonneg: False
        with that have non: "?n \<notin> \<int>" by simp
        from False nonneg
        have "BigNumber_new lib (JNumber (JS_Finite neg' c e)) = Inr (BN_Finite ?n)"
          unfolding eq by simp
        then show ?thesis
          by (simp only: BigInt_new_def sum.case BigInt_of_nonint [OF non])
      qed
    qed
  qed
  have 8: "\<exists>b. BigInt_new lib (JNumber (JS_Finite neg' c e)) = Inr b \<and> of_nat (value b) = ?n"
    if "\<not> (15 < sigDigits c \<and> MAX_SAFE_INTEGER < ?n) \<and> \<not> neg' \<and> ?n \<in> \<int>"
  proof -
    from that have ok: "\<not> ?refused" by auto
    note eq = new [OF ok]
    from that have nonneg: "\<not> neg'" and int: "?n \<in> \<int>" by simp_all
    from BigInt_of_int [OF magnitude_nonneg int]
    obtain b where b: "BigInt_of (BN_Finite ?n) = Inr b" "of_nat (value b) = ?n"
      by (elim exE conjE) (rule that)
    have "BigNumber_new lib (JNumber (JS_Finite neg' c e)) = Inr (BN_Finite ?n)"
    proof (cases "c = 0")
      case True
      with nonneg zero show ?thesis unfolding eq by simp
    next
      case False
      with nonneg show ?thesis unfolding eq by simp
    qed
    then have "BigInt_new lib (JNumber (JS_Finite neg' c e)) = Inr b"
      by (simp only: BigInt_new_def sum.case b)
    with b show ?thesis by (intro exI conjI)
  qed
  have 9: "BigInt_new lib (JString s) = Inr \<lparr>value = parseDecimal 0 s\<rparr>"
    if "s \<noteq> [] \<and> list_all isDecimalDigit s"
    using that by (simp add: BigInt_new_def BigInt_of_nat)
  from 1 2 3 4 5 6 7 8 9 show ?thesis by blast
qed

theorem BigInt_new_invariant_witness:
  "BigInt_new (\<lambda>s. Inl LibraryError) (JString ''abc'') = Inl LibraryError
     \<and> BigInt_new (\<lambda>s. Inl LibraryError) (JNumber (JS_Finite True 0 0)) = Inl InvalidParams
     \<and> (\<exists>b. BigInt_new (\<lambda>s. Inl LibraryError) (JString ''12'') = Inr b \<and> value b = 12)
     \<and> (\<exists>h. toHexstr \<lparr>value = 7\<rparr> = Inr h)
     \<and> BigInt_new (\<lambda>s. Inl LibraryError) (JNumber JS_NaN) = Inl InvalidParams
     \<and> BigInt_new (\<lambda>s. Inl LibraryError) (JNumber (JS_Infinity False)) = Inl InvalidParams
     \<and> BigInt_new (\<lambda>s. Inl LibraryError) (JNumber (JS_Finite False 18446744073709552 3))
         = Inl LibraryError
     \<and> BigInt_new (\<lambda>s. Inl LibraryError) (JNumber (JS_Finite True 3 0)) = Inl InvalidParams
     \<and> BigInt_new (\<lambda>s. Inl LibraryError) (JNumber (JS_Finite False 25 (- 1))) = Inl InvalidParams
     \<and> (\<exists>b. BigInt_new (\<lambda>s. Inl LibraryError) (JNumber (JS_Finite False 7 0)) = Inr b
           \<and> value b = 7)
     \<and> BigInt_new (\<lambda>s. Inl LibraryError) (JString ''18446744073709551616'')
         = Inr \<lparr>value = 18446744073709551616\<rparr>"
proof -
  let ?lib = "\<lambda>s::string. (Inl LibraryError :: error + BigNumber)"
  have s0: "sigDigits 0 = 0" and s3: "sigDigits 3 = 1" and s7: "sigDigits 7 = 1"
    and s25: "sigDigits 25 = 2" and s64: "sigDigits 18446744073709552 = 17"
    by (simp_all add: sigDigits_def stripZeros.simps numDigits.simps)
  have m3: "magnitude 3 0 = 3" and m7: "magnitude 7 0 = 7"
    and m64: "magnitude 18446744073709552 3 = 18446744073709552000"
    by (simp_all add: magnitude_def)
  have i25: "magnitude 25 (- 1) \<notin> \<int>"
    by (simp add: magnitude_Ints)
  have c1: "BigInt_new ?lib (JString ''abc'') = Inl LibraryError"
    by (rule BigInt_new_invariant [THEN conjunct1, THEN mp]) (simp add: isDecimalDigit_def)
  have "BigNumber_new ?lib (JNumber (JS_Finite True 0 0)) = Inr BN_NegZero"
    by (simp only: BigNumber_new_finite s0) simp
  then have c2: "BigInt_new ?lib (JNumber (JS_Finite True 0 0)) = Inl InvalidParams"
    by (intro BigInt_new_invariant [THEN conjunct2, THEN conjunct1, THEN mp, of _ _ BN_NegZero])
      simp
  have p12: "parseDecimal 0 ''12'' = 12"
    by simp
  have "BigNumber_new ?lib (JString ''12'') = Inr (BN_Finite 12)"
    by (simp add: isDecimalDigit_def)
  then have "\<exists>b. BigInt_new ?lib (JString ''12'') = Inr b
      \<and> BN_Finite 12 = BN_Finite (of_nat (value b))"
    by (intro BigInt_new_invariant [THEN conjunct2, THEN conjunct2, THEN conjunct1, THEN mp])
      (simp add: of_int_floor_Ints)
  then obtain b12 where b12: "BigInt_new ?lib (JString ''12'') = Inr b12"
    and "(12 :: rat) = of_nat (value b12)"
    by auto
  then have "(of_nat (value b12) :: rat) = of_nat 12"
    by simp
  then have "value b12 = 12"
    by (simp only: of_nat_eq_iff)
  with b12 have c3: "\<exists>b. BigInt_new ?lib (JString ''12'') = Inr b \<and> value b = 12"
    by (intro exI conjI)
  have b7: "BigInt_new ?lib (JString ''7'') = Inr \<lparr>value = 7\<rparr>"
    by (simp add: BigInt_new_def isDecimalDigit_def BigInt_of_def)
  have c4: "\<exists>h. toHexstr \<lparr>value = 7\<rparr> = Inr h"
    by (rule BigInt_new_invariant
        [THEN conjunct2, THEN conjunct2, THEN conjunct2, THEN conjunct1, THEN mp, OF b7])
  have c5: "BigInt_new ?lib (JNumber JS_NaN) = Inl InvalidParams"
    by (rule BigInt_new_invariant
        [THEN conjunct2, THEN conjunct2, THEN conjunct2, THEN conjunct2, THEN conjunct1])
  have c6: "BigInt_new ?lib (JNumber (JS_Infinity False)) = Inl InvalidParams"
    by (rule BigInt_new_invariant
        [THEN conjunct2, THEN conjunct2, THEN conjunct2, THEN conjunct2, THEN conjunct2,
          THEN conjunct1])
  have c7: "BigInt_new ?lib (JNumber (JS_Finite False 18446744073709552 3)) = Inl LibraryError"
    by (rule BigInt_new_invariant
        [THEN conjunct2, THEN conjunct2, THEN conjunct2, THEN conjunct2, THEN conjunct2,
          THEN conjunct2, THEN conjunct1, THEN mp])
      (simp add: s64 m64 MAX_SAFE_INTEGER_def)
  have c8: "BigInt_new ?lib (JNumber (JS_Finite True 3 0)) = Inl InvalidParams"
    by (rule BigInt_new_invariant
        [THEN conjunct2, THEN conjunct2, THEN conjunct2, THEN conjunct2, THEN conjunct2,
          THEN conjunct2, THEN conjunct2, THEN conjunct1, THEN mp])
      (simp add: s3)
  have c8': "BigInt_new ?lib (JNumber (JS_Finite False 25 (- 1))) = Inl InvalidParams"
    using i25
    by (intro BigInt_new_invariant
        [THEN conjunct2, THEN conjunct2, THEN conjunct2, THEN conjunct2, THEN conjunct2,
          THEN conjunct2, THEN conjunct2, THEN conjunct1, THEN mp])
      (simp add: s25)
  have "\<exists>b. BigInt_new ?lib (JNumber (JS_Finite False 7 0)) = Inr b
      \<and> of_nat (value b) = magnitude 7 0"
    by (rule BigInt_new_invariant
        [THEN conjunct2, THEN conjunct2, THEN conjunct2, THEN conjunct2, THEN conjunct2,
          THEN conjunct2, THEN conjunct2, THEN conjunct2, THEN conjunct1, THEN mp])
      (simp add: s7 m7)
  then obtain b' where b': "BigInt_new ?lib (JNumber (JS_Finite False 7 0)) = Inr b'"
    and "(of_nat (value b') :: rat) = of_nat 7"
    by (auto simp add: m7)
  then have "value b' = 7"
    by (simp only: of_nat_eq_iff)
  with b' have c9: "\<exists>b. BigInt_new ?lib (JNumber (JS_Finite False 7 0)) = Inr b \<and> value b = 7"
    by (intro exI conjI)
  have "BigInt_new ?lib (JString ''18446744073709551616'')
      = Inr \<lparr>value = parseDecimal 0 ''18446744073709551616''\<rparr>"
    by (rule BigInt_new_invariant
        [THEN conjunct2, THEN conjunct2, THEN conjunct2, THEN conjunct2, THEN conjunct2,
          THEN conjunct2, THEN conjunct2, THEN conjunct2, THEN conjunct2, THEN mp])
      (simp add: isDecimalDigit_def)
  then have c10: "BigInt_new ?lib (JString ''18446744073709551616'')
      = Inr \<lparr>value = 18446744073709551616\<rparr>"
    by simp
  from c1 c2 c3 c4 c5 c6 c7 c8 c8' c9 c10 show ?thesis
    by (intro conjI)
qed

section \<open>Evaluating the wire format on concrete values\<close>

lemma bytesLE_numeral:
  "bytesLE (numeral k) num = (num mod 256) # bytesLE (pred_numeral k) (num div 256)"
proof -
  have "(numeral k :: nat) = Suc (pred_numeral k)" by (rule numeral_eq_Suc)
  then show ?thesis by (simp only: bytesLE.simps)
qed

lemmas write_simps = num2hexstring_def byte2hex_def bytesLE_numeral hexChar_simps
  str2VarBytes_def str2hexstr_def num2VarInt_def hex2VarBytes_def Let_def

lemmas read_simps = andThen_def StringReader_new_def read_def readUint_def readInt_def
  readLong_def readUint32_def readNextLen_def readNextBytes_def hexDigit_def hexstr2str_def
  parseInt16_def Address_deserialize_def char_of_eq_iff

section \<open>Transaction builders\<close>

lemma makeVoteForPeerTx_mismatch:
  "length peerPubKeys \<noteq> length posList \<Longrightarrow>
     makeVoteForPeerTx userAddr peerPubKeys posList payer gasPrice gasLimit = Inl InvalidParams"
  by (simp add: makeVoteForPeerTx_def)

lemma makeUnvoteForPeerTx_mismatch:
  "length peerPubKeys \<noteq> length posList \<Longrightarrow>
     makeUnvoteForPeerTx userAddr peerPubKeys posList payer gasPrice gasLimit = Inl InvalidParams"
  by (simp add: makeUnvoteForPeerTx_def)

lemma makeWithdrawTx_mismatch:
  "length peerPubKeys \<noteq> length withdrawList \<Longrightarrow>
     makeWithdrawTx userAddr peerPubKeys withdrawList payer gasPrice gasLimit = Inl InvalidParams"
  by (simp add: makeWithdrawTx_def)

text \<open>
  C3 fails for \<^verbatim>\<open>makeAuthorizeForPeerTx\<close> and \<^verbatim>\<open>makeUnauthorizeForPeerTx\<close>: they lack
  the length check of their three siblings. With three peers and two amounts both build
  the struct, seven fields of it, and return a transaction.
\<close>

theorem makeAuthorizeForPeerTx_mismatch_accepted:
  "makeAuthorizeForPeerTx (Address ''0000000000000000000000000000000000000001'')
       [''a'', ''b'', ''c''] [1, 2]
       (Address ''0000000000000000000000000000000000000001'') ''0'' ''20000''
     = Inr \<lparr>tx_funcName = ''authorizeForPeer'',
            tx_params = [[StrParam ''0000000000000000000000000000000000000001'',
                          NumParam 3, StrParam ''61'', StrParam ''62'', StrParam ''63'',
                          NumParam 2, NumParam 1, NumParam 2]],
            tx_contract = Address ''0000000000000000000000000000000000000007'',
            tx_gasPrice = ''0'', tx_gasLimit = ''20000'',
            tx_payer = Address ''0000000000000000000000000000000000000001''\<rparr>
   \<and> makeUnauthorizeForPeerTx (Address ''0000000000000000000000000000000000000001'')
       [''a'', ''b'', ''c''] [1, 2]
       (Address ''0000000000000000000000000000000000000001'') ''0'' ''20000''
     = Inr \<lparr>tx_funcName = ''unAuthorizeForPeer'',
            tx_params = [[StrParam ''0000000000000000000000000000000000000001'',
                          NumParam 3, StrParam ''61'', StrParam ''62'', StrParam ''63'',
                          NumParam 2, NumParam 1, NumParam 2]],
            tx_contract = Address ''0000000000000000000000000000000000000007'',
            tx_gasPrice = ''0'', tx_gasLimit = ''20000'',
            tx_payer = Address ''0000000000000000000000000000000000000001''\<rparr>
   \<and> makeVoteForPeerTx (Address ''0000000000000000000000000000000000000001'')
       [''a'', ''b'', ''c''] [1, 2]
       (Address ''0000000000000000000000000000000000000001'') ''0'' ''20000''
     = Inl InvalidParams"
  by (simp add: makeAuthorizeForPeerTx_def makeUnauthorizeForPeerTx_def makeVoteForPeerTx_def
      peerListStruct_def Struct_new_def Struct_add_def buildNativeCodeScript_def
      makeNativeContractTx_def contractAddress_def GOVERNANCE_CONTRACT_def write_simps)

text \<open>
  C10. When \<^verbatim>\<open>varifyPositiveInt\<close> lets the initial stake through,
  \<^verbatim>\<open>makeRegisterCandidateTx\<close> returns a transaction with one struct of five fields;
  the fourth is the hex of \<^verbatim>\<open>ontid\<close> when its first three characters are
  \<^verbatim>\<open>did\<close>, and \<^verbatim>\<open>ontid\<close> itself otherwise.
\<close>

theorem makeRegisterCandidateTx_ontid:
  assumes "varifyPositiveInt initPos' = Inr ()"
  shows "\<exists>tx struct.
           makeRegisterCandidateTx varifyPositiveInt ontid peerPubKey keyNo userAddr initPos'
             payer gasPrice gasLimit = Inr tx
         \<and> tx_params tx = [struct] \<and> length struct = 5
         \<and> struct ! 3 = StrParam (if take 3 ontid = ''did'' then str2hexstr ontid else ontid)"
  using assms
  by (simp add: makeRegisterCandidateTx_def andThen_def Let_def Struct_new_def Struct_add_def
      buildNativeCodeScript_def makeNativeContractTx_def)

theorem makeRegisterCandidateTx_ontid_witness:
  "(\<exists>tx struct.
      makeRegisterCandidateTx (\<lambda>v. if 0 < v then Inr () else Inl InvalidParams)
        ''did:ont:A'' ''02'' 1 (Address ''00'') 1000 (Address ''00'') ''0'' ''20000'' = Inr tx
      \<and> tx_params tx = [struct] \<and> struct ! 3 = StrParam ''6469643a6f6e743a41'')
   \<and> (\<exists>tx struct.
      makeRegisterCandidateTx (\<lambda>v. if 0 < v then Inr () else Inl InvalidParams)
        ''ab01'' ''02'' 1 (Address ''00'') 1000 (Address ''00'') ''0'' ''20000'' = Inr tx
      \<and> tx_params tx = [struct] \<and> struct ! 3 = StrParam ''ab01'')"
proof -
  let ?v = "\<lambda>v::int. if 0 < v then Inr () else Inl InvalidParams"
  have hex: "str2hexstr ''did:ont:A'' = ''6469643a6f6e743a41''"
    by (simp add: write_simps)
  from makeRegisterCandidateTx_ontid [where varifyPositiveInt = ?v and initPos' = 1000
      and ontid = "''did:ont:A''" and peerPubKey = "''02''" and keyNo = 1
      and userAddr = "Address ''00''" and payer = "Address ''00''"
      and gasPrice = "''0''" and gasLimit = "''20000''"]
    makeRegisterCandidateTx_ontid [where varifyPositiveInt = ?v and initPos' = 1000
      and ontid = "''ab01''" and peerPubKey = "''02''" and keyNo = 1
      and userAddr = "Address ''00''" and payer = "Address ''00''"
      and gasPrice = "''0''" and gasLimit = "''20000''"]
  show ?thesis by (simp add: hex) blast
qed

section \<open>Governance records\<close>

text \<open>
  C6. The peer-pool entry with index 1, key \<^verbatim>\<open>abc\<close>, the address of 20 zero bytes,
  status 1, initial stake 1000 and total stake 2000 is written as 45 bytes, and reading
  them back gives the same entry, field for field, with the reader at the end.
\<close>

theorem PeerPoolItem_roundtrip:
  "PeerPoolItem_serialize
       \<lparr>index = 1, PeerPoolItem.peerPubkey = ''abc'',
        PeerPoolItem.address = Address ''0000000000000000000000000000000000000000'',
        status = 1, initPos = 1000, totalPos = 2000\<rparr>
     = ''0100000003616263000000000000000000000000000000000000000001e803000000000000d007000000000000''
   \<and> PeerPoolItem_deserialize (StringReader_new (PeerPoolItem_serialize
       \<lparr>index = 1, PeerPoolItem.peerPubkey = ''abc'',
        PeerPoolItem.address = Address ''0000000000000000000000000000000000000000'',
        status = 1, initPos = 1000, totalPos = 2000\<rparr>))
     = Inr (\<lparr>index = 1, PeerPoolItem.peerPubkey = ''abc'',
             PeerPoolItem.address = Address ''0000000000000000000000000000000000000000'',
             status = 1, initPos = 1000, totalPos = 2000\<rparr>,
            \<lparr>str = ''0100000003616263000000000000000000000000000000000000000001e803000000000000d007000000000000'',
             pos = 45\<rparr>)"
proof -
  let ?item = "\<lparr>index = 1, PeerPoolItem.peerPubkey = ''abc'',
        PeerPoolItem.address = Address ''0000000000000000000000000000000000000000'',
        status = 1, initPos = 1000, totalPos = 2000\<rparr>"
  let ?blob = "''0100000003616263000000000000000000000000000000000000000001e803000000000000d007000000000000''"
  have ser: "PeerPoolItem_serialize ?item = ?blob"
    by (simp add: PeerPoolItem_serialize_def write_simps)
  have "PeerPoolItem_deserialize (StringReader_new ?blob) = Inr (?item, \<lparr>str = ?blob, pos = 45\<rparr>)"
    by (simp add: PeerPoolItem_deserialize_def read_simps)
  with ser show ?thesis by (simp only:)
qed

text \<open>
  C8. When the storage fetch gives an empty result, \<^verbatim>\<open>getAttributes\<close>,
  \<^verbatim>\<open>getSplitFeeAddress\<close> and \<^verbatim>\<open>getAuthorizeInfo\<close> return a freshly constructed
  record, and decode nothing.
\<close>

theorem absent_record_default:
  "(getStorage (str2hexstr PEER_ATTRIBUTES @ peerPubKey) = [] \<longrightarrow>
      getAttributes getStorage peerPubKey = Inr PeerAttributes_new)
   \<and> (getStorage (str2hexstr SPLIT_FEE_ADDRESS @ Address_serialize addr) = [] \<longrightarrow>
      getSplitFeeAddress getStorage addr = Inr SplitFeeAddress_new)
   \<and> (getStorage (str2hexstr AUTHORIZE_INFO_POOL @ peerPubKey @ Address_serialize addr) = [] \<longrightarrow>
      getAuthorizeInfo getStorage peerPubKey addr = Inr AuthorizeInfo_new)"
  by (simp add: getAttributes_def getSplitFeeAddress_def getAuthorizeInfo_def Let_def)

theorem absent_record_default_witness:
  "getAttributes (\<lambda>key. []) ''02ab'' = Inr PeerAttributes_new
   \<and> getSplitFeeAddress (\<lambda>key. []) (Address ''0000000000000000000000000000000000000001'')
       = Inr SplitFeeAddress_new
   \<and> getAuthorizeInfo (\<lambda>key. []) ''02ab'' (Address ''0000000000000000000000000000000000000001'')
       = Inr AuthorizeInfo_new
   \<and> amount SplitFeeAddress_new = 0
   \<and> PeerAttributes_deserialize (StringReader_new []) = Inl TruncatedInput"
proof -
  have "PeerAttributes_deserialize (StringReader_new []) = Inl TruncatedInput"
    by (simp add: PeerAttributes_deserialize_def read_simps)
  with absent_record_default [of "\<lambda>key. []" "''02ab''"
      "Address ''0000000000000000000000000000000000000001''"]
  show ?thesis by (simp add: SplitFeeAddress_new_def)
qed

text \<open>
  C9. \<^verbatim>\<open>PeerAttributes.serialize\<close> returns the empty string for every instance, and
  the empty string does not decode: a record that \<^verbatim>\<open>deserialize\<close> read from a blob
  is not written back as that blob, nor as anything that decodes.
\<close>

theorem PeerAttributes_serialize_empty:
  "PeerAttributes_serialize this = []
   \<and> PeerAttributes_deserialize (StringReader_new (PeerAttributes_serialize this))
       = Inl TruncatedInput
   \<and> PeerAttributes_deserialize (StringReader_new
         ''03616263016400000000000000c8000000000000000500000000000000'')
       = Inr (\<lparr>PeerAttributes.peerPubkey = Some ''abc'', ifAuthorize = Some 1,
               oldPeerCost = Some 100, newPeerCost = Some 200, setCostView = Some 5,
               field1 = Some [], field2 = Some [], field3 = Some [], field4 = Some []\<rparr>,
              \<lparr>str = ''03616263016400000000000000c8000000000000000500000000000000'', pos = 29\<rparr>)
   \<and> PeerAttributes_serialize
         \<lparr>PeerAttributes.peerPubkey = Some ''abc'', ifAuthorize = Some 1,
          oldPeerCost = Some 100, newPeerCost = Some 200, setCostView = Some 5,
          field1 = Some [], field2 = Some [], field3 = Some [], field4 = Some []\<rparr>
       \<noteq> ''03616263016400000000000000c8000000000000000500000000000000''"
proof -
  have "PeerAttributes_deserialize (StringReader_new []) = Inl TruncatedInput"
    by (simp add: PeerAttributes_deserialize_def read_simps)
  moreover have "PeerAttributes_deserialize (StringReader_new
         ''03616263016400000000000000c8000000000000000500000000000000'')
       = Inr (\<lparr>PeerAttributes.peerPubkey = Some ''abc'', ifAuthorize = Some 1,
               oldPeerCost = Some 100, newPeerCost = Some 200, setCostView = Some 5,
               field1 = Some [], field2 = Some [], field3 = Some [], field4 = Some []\<rparr>,
              \<lparr>str = ''03616263016400000000000000c8000000000000000500000000000000'', pos = 29\<rparr>)"
    by (simp add: PeerAttributes_deserialize_def PeerAttributes_new_def read_simps)
  ultimately show ?thesis
    by (simp add: PeerAttributes_serialize_def)
qed

section \<open>The peer-pool query\<close>













end
